theory Spec2Isabelle
  imports Complex_Main "HOL-Library.Log_Nat" "HOL-Library.AList" "HOL-Library.Product_Lexorder"
    "HOL-Library.Multiset"
begin

section \<open>Python values, errors and floating point\<close>

text \<open>
  The service is Python on top of the Django ORM. Integers are unbounded (\<open>int\<close>).
  A Python \<open>float\<close> is an IEEE 754 binary64 number; it is modelled by the rational it
  denotes, and every floating-point operation rounds its exact result to the nearest
  binary64 value, ties to even (\<open>fl\<close>). Only the 53-bit precision is modelled, not the
  exponent range: no magnitude computed by the service leaves the normal range.
\<close>

datatype py_error = KeyError | ZeroDivisionError

datatype pyval = PyNone | PyInt int | PyStr string

definition pow2 :: "int \<Rightarrow> rat" where
  "pow2 k = (if 0 \<le> k then 2 ^ nat k else 1 / 2 ^ nat (- k))"

definition round_half_even :: "rat \<Rightarrow> int" where
  "round_half_even x =
     (let f = \<lfloor>x\<rfloor>; d = x - of_int f
      in if d < 1 / 2 then f else if 1 / 2 < d then f + 1 else if even f then f else f + 1)"

text \<open>\<open>ilog2 a\<close> is the binary exponent \<open>\<lfloor>log\<^sub>2 a\<rfloor>\<close> of a positive rational.\<close>

definition ilog2 :: "rat \<Rightarrow> int" where
  "ilog2 a = (let (p, q) = quotient_of a; k = bitlen p - bitlen q
              in if pow2 k \<le> a then k else k - 1)"

definition fl :: "rat \<Rightarrow> rat" where
  "fl x = (if x = 0 then 0
           else let a = \<bar>x\<bar>; u = pow2 (ilog2 a - 52)
                in sgn x * of_int (round_half_even (a / u)) * u)"

definition fadd :: "rat \<Rightarrow> rat \<Rightarrow> rat" where
  "fadd a b = fl (a + b)"

definition fsub :: "rat \<Rightarrow> rat \<Rightarrow> rat" where
  "fsub a b = fl (a - b)"

definition fmul :: "rat \<Rightarrow> rat \<Rightarrow> rat" where
  "fmul a b = fl (a * b)"

text \<open>True division \<open>a / b\<close>; Python raises \<open>ZeroDivisionError\<close> when \<open>b\<close> is zero.\<close>

definition fdiv :: "rat \<Rightarrow> rat \<Rightarrow> py_error + rat" where
  "fdiv a b = (if b = 0 then Inl ZeroDivisionError else Inr (fl (a / b)))"

text \<open>
  \<open>round(x, n)\<close> on a float: the exact value is rounded to \<open>n\<close> decimals, half to even,
  and the decimal result is converted back to the nearest float.
\<close>

definition py_round :: "rat \<Rightarrow> nat \<Rightarrow> rat" where
  "py_round x n = fl (of_int (round_half_even (x * 10 ^ n)) / 10 ^ n)"

text \<open>\<open>str\<close> on the values a question id can take.\<close>

fun digits :: "nat \<Rightarrow> string" where
  "digits n = (if n < 10 then [char_of (48 + n)] else digits (n div 10) @ [char_of (48 + n mod 10)])"

fun py_str :: "pyval \<Rightarrow> string" where
  "py_str PyNone = ''None''"
| "py_str (PyInt i) = (if i < 0 then CHR ''-'' # digits (nat (- i)) else digits (nat i))"
| "py_str (PyStr s) = s"

text \<open>\<open>d.get(k, default)\<close> on a dictionary kept as an association list in insertion order.\<close>

definition dict_get :: "('k \<times> 'v) list \<Rightarrow> 'k \<Rightarrow> 'v \<Rightarrow> 'v" where
  "dict_get d k dflt = (case map_of d k of None \<Rightarrow> dflt | Some v \<Rightarrow> v)"

text \<open>
  \<open>list.sort(key=f, reverse=True)\<close>: CPython reverses the list, sorts it stably and
  reverses it again, so equal keys keep their original order. \<open>sorted(xs, key=f)\<close> is
  the stable ascending sort \<open>sort_key f\<close>.
\<close>

definition sort_desc :: "('a \<Rightarrow> 'k::linorder) \<Rightarrow> 'a list \<Rightarrow> 'a list" where
  "sort_desc f xs = rev (sort_key f (rev xs))"

section \<open>The stored models\<close>

text \<open>
  Every Django model has a primary key \<open>pk\<close>. A table is the list of its rows; an
  instance in memory is a copy of a row. \<open>models.py\<close> declares \<open>Exam\<close> and
  \<open>CheatingEvent\<close>; only the fields the service reads are kept.
\<close>

record Model =
  pk :: nat

text \<open>
  Modelled from the spec: the fields \<open>total_score\<close>, \<open>rank\<close> and \<open>percentile\<close> of
  \<open>Exam\<close>, which the service reads and writes but \<open>models.py\<close> does not declare
  ("Exam: total_questions, correct_answers, percentage_score, status, total_score, rank,
  percentile").
\<close>

record Exam = Model +
  student :: "nat option"
  status :: string
  timestamp :: int
  total_score :: int
  rank :: int
  percentile :: rat

record CheatingEvent = Model +
  event_student :: "nat option"
  event_type :: "string option"
  tab_switch_count :: int

text \<open>
  Modelled from the spec: the model \<open>CompetencyScore\<close>, which the service imports from
  \<open>proctoring.models\<close> and \<open>models.py\<close> does not declare ("CompetencyScore: one per
  (exam, competency) pair: raw score, max score, percentage, performance level,
  is_strength flag, is_weakness flag"). Its fields are those the service passes to
  \<open>CompetencyScore.objects.create\<close>; \<open>exam\<close> holds the primary key of the exam.
\<close>

record CompetencyScore = Model +
  exam :: nat
  competency_name :: string
  raw_score :: rat
  max_score :: int
  percentage :: rat
  performance_level :: string
  is_strength :: bool
  is_weakness :: bool

text \<open>A question is a dictionary; \<open>qid\<close> is its key \<open>id\<close>, and \<open>competency_type\<close> is
  \<open>None\<close> when the key is absent (the service reads it with \<open>get\<close>).\<close>

record Question =
  qid :: pyval
  correct_answer :: pyval
  competency_type :: "string option"

section \<open>Class constants of SimpleScoringService\<close>

definition MARKS :: "(string \<times> int) list" where
  "MARKS = [(''critical_thinking'', 4), (''communication'', 2), (''adaptability'', 1),
            (''basic_engineering'', 5), (''technical'', 6)]"

definition MAX_SCORES :: "(string \<times> int) list" where
  "MAX_SCORES = [(''critical_thinking'', 5 * 4), (''communication'', 5 * 2),
                 (''adaptability'', 2 * 1), (''basic_engineering'', 5 * 5),
                 (''technical'', 8 * 6)]"

definition COMPETENCY_WEIGHTS :: "(string \<times> rat) list" where
  "COMPETENCY_WEIGHTS = [(''critical_thinking'', fl (30 / 100)), (''communication'', fl (20 / 100)),
                         (''adaptability'', fl (10 / 100)), (''basic_engineering'', fl (30 / 100)),
                         (''technical'', fl (50 / 100))]"

record Courses =
  priority :: "string list"
  complementary :: "string list"
  advanced :: "string list"

definition COURSE_MAPPING :: "(string \<times> Courses) list" where
  "COURSE_MAPPING =
    [(''critical_thinking'',
        \<lparr>priority = [''Critical Thinking Bootcamp'', ''Problem Solving Workshops''],
         complementary = [''Decision Making for Engineers''],
         advanced = [''Advanced Systems Thinking'']\<rparr>),
     (''communication'',
        \<lparr>priority = [''Technical Writing Essentials'', ''Presentation Skills''],
         complementary = [''Interpersonal Communication''],
         advanced = [''Professional Communication for Leaders'']\<rparr>),
     (''adaptability'',
        \<lparr>priority = [''Change Management Fundamentals''],
         complementary = [''Time & Priority Management''],
         advanced = [''Leadership Agility Program'']\<rparr>),
     (''basic_engineering'',
        \<lparr>priority = [''Engineering Fundamentals Refresher''],
         complementary = [''Materials & Manufacturing Basics''],
         advanced = [''Advanced Engineering Design'']\<rparr>),
     (''technical'',
        \<lparr>priority = [''Field-specific Technical Foundations''],
         complementary = [''Applied Technical Projects''],
         advanced = [''Specialization / Capstone Projects'']\<rparr>)]"

section \<open>Strengths and weaknesses\<close>

text \<open>
  \<open>CompetencyScore.objects.filter(exam=self.exam).update(is_strength=False,
  is_weakness=False)\<close> rewrites the rows of the exam in the table.
\<close>

definition update_flags_false :: "Exam \<Rightarrow> CompetencyScore list \<Rightarrow> CompetencyScore list" where
  "update_flags_false e db =
     map (\<lambda>r. if exam r = pk e then r\<lparr>is_strength := False, is_weakness := False\<rparr> else r) db"

text \<open>
  \<open>c.save(update_fields=[...])\<close> writes the one field of the instance \<open>c\<close> to the row
  with its primary key. The table operations are taken to succeed, as the service does.
\<close>

definition save_is_strength :: "CompetencyScore \<Rightarrow> CompetencyScore list \<Rightarrow> CompetencyScore list" where
  "save_is_strength c db = map (\<lambda>r. if pk r = pk c then r\<lparr>is_strength := is_strength c\<rparr> else r) db"

definition save_is_weakness :: "CompetencyScore \<Rightarrow> CompetencyScore list \<Rightarrow> CompetencyScore list" where
  "save_is_weakness c db = map (\<lambda>r. if pk r = pk c then r\<lparr>is_weakness := is_weakness c\<rparr> else r) db"

text \<open>The two loops \<open>for c in strengths[:2]\<close> and \<open>for c in weaknesses[:2]\<close>.\<close>

fun mark_strengths :: "CompetencyScore list \<Rightarrow> CompetencyScore list \<Rightarrow> CompetencyScore list" where
  "mark_strengths [] db = db"
| "mark_strengths (c # cs) db = mark_strengths cs (save_is_strength (c\<lparr>is_strength := True\<rparr>) db)"

fun mark_weaknesses :: "CompetencyScore list \<Rightarrow> CompetencyScore list \<Rightarrow> CompetencyScore list" where
  "mark_weaknesses [] db = db"
| "mark_weaknesses (c # cs) db = mark_weaknesses cs (save_is_weakness (c\<lparr>is_weakness := True\<rparr>) db)"

text \<open>The instances chosen as strengths and as weaknesses (lines 119 to 136).\<close>

definition strengths_of :: "CompetencyScore list \<Rightarrow> CompetencyScore list" where
  "strengths_of comp_scores =
     (let sorted_scores = sort_desc percentage comp_scores;
          strengths = filter (\<lambda>c. 75 \<le> percentage c) sorted_scores;
          strengths = (if length strengths < 2 then take 2 sorted_scores else strengths)
      in take 2 strengths)"

definition weaknesses_of :: "CompetencyScore list \<Rightarrow> CompetencyScore list" where
  "weaknesses_of comp_scores =
     (let sorted_scores = sort_desc percentage comp_scores;
          bottom_sorted = sort_key percentage sorted_scores;
          weaknesses = filter (\<lambda>c. percentage c < 60) bottom_sorted;
          weaknesses = (if length weaknesses < 2 then take 2 bottom_sorted else weaknesses)
      in take 2 weaknesses)"

text \<open>
  \<open>identify_strengths_weaknesses\<close>, as a transformer of the \<open>CompetencyScore\<close> table.
  The flags it also sets on the instances of \<open>comp_scores\<close> are the ones it saves.
\<close>

definition identify_strengths_weaknesses ::
  "Exam \<Rightarrow> CompetencyScore list \<Rightarrow> CompetencyScore list \<Rightarrow> CompetencyScore list" where
  "identify_strengths_weaknesses e comp_scores db =
     (if comp_scores = [] then db
      else mark_weaknesses (weaknesses_of comp_scores)
             (mark_strengths (strengths_of comp_scores) (update_flags_false e db)))"

section \<open>Competency breakdown\<close>

definition level_of :: "rat \<Rightarrow> string" where
  "level_of p =
     (if 85 \<le> p then ''advanced''
      else if 70 \<le> p then ''proficient''
      else if 50 \<le> p then ''developing''
      else if 30 \<le> p then ''emerging''
      else ''novice'')"

text \<open>Lines 81 to 83: the percentage of one competency, capped to 0..100.\<close>

definition percentage_of :: "string \<Rightarrow> rat \<Rightarrow> rat" where
  "percentage_of competency raw =
     (let max_sc = dict_get MAX_SCORES competency 0;
          p = (if 0 < max_sc then fmul (fl (raw / of_int max_sc)) 100 else 0)
      in max 0 (min 100 p))"

text \<open>\<open>objects.create\<close> gives the new row a primary key that no row of the table has.\<close>

definition fresh_pk :: "CompetencyScore list \<Rightarrow> nat" where
  "fresh_pk db = Suc (fold max (map pk db) 0)"

definition create_score :: "Exam \<Rightarrow> string \<Rightarrow> rat \<Rightarrow> CompetencyScore list \<Rightarrow> CompetencyScore" where
  "create_score e competency raw db =
     \<lparr>pk = fresh_pk db, exam = pk e, competency_name = competency, raw_score = raw,
      max_score = dict_get MAX_SCORES competency 0,
      percentage = percentage_of competency raw,
      performance_level = level_of (percentage_of competency raw),
      is_strength = False, is_weakness = False\<rparr>"

text \<open>The loop over \<open>competency_scores.items()\<close>: the table and \<open>created_scores\<close>.\<close>

fun create_scores ::
  "Exam \<Rightarrow> (string \<times> rat) list \<Rightarrow> CompetencyScore list \<Rightarrow> CompetencyScore list
     \<Rightarrow> CompetencyScore list \<times> CompetencyScore list" where
  "create_scores e [] db created = (db, created)"
| "create_scores e ((competency, raw) # rest) db created =
     (let obj = create_score e competency raw db
      in create_scores e rest (db @ [obj]) (created @ [obj]))"

definition save_competency_breakdown ::
  "Exam \<Rightarrow> (string \<times> rat) list \<Rightarrow> CompetencyScore list \<Rightarrow> CompetencyScore list" where
  "save_competency_breakdown e competency_scores db =
     (let (db1, created_scores) =
            create_scores e competency_scores (filter (\<lambda>r. exam r \<noteq> pk e) db) []
      in identify_strengths_weaknesses e created_scores db1)"

section \<open>Improvement priorities and course recommendation\<close>

record Priority =
  p_competency_name :: string
  p_percentage :: rat
  priority_score :: rat
  p_is_strength :: bool
  p_is_weakness :: bool

definition priority_of :: "CompetencyScore \<Rightarrow> Priority" where
  "priority_of c =
     (let gap = max 0 (fsub 75 (percentage c));
          weight = dict_get COMPETENCY_WEIGHTS (competency_name c) 0
      in \<lparr>p_competency_name = competency_name c, p_percentage = percentage c,
          priority_score = py_round (fmul gap weight) 3,
          p_is_strength = is_strength c, p_is_weakness = is_weakness c\<rparr>)"

definition compute_improvement_priorities :: "Exam \<Rightarrow> CompetencyScore list \<Rightarrow> Priority list" where
  "compute_improvement_priorities e db =
     sort_desc priority_score (map priority_of (filter (\<lambda>r. exam r = pk e) db))"

text \<open>Lines 170 to 177 of \<open>recommend_courses\<close>: the entries whose priority courses are taken.\<close>

definition weak_of :: "Priority list \<Rightarrow> Priority list" where
  "weak_of pr =
     (let weak = filter (\<lambda>p. p_percentage p < 60) pr;
          weak = (if weak = [] then drop (length pr - 2) pr else weak)
      in take 2 weak)"

record Recommendation =
  priority_courses :: "string list"
  complementary_courses :: "string list"
  advanced_courses :: "string list"

text \<open>\<open>list(dict.fromkeys(xs))\<close>: duplicates removed, first occurrences kept in order.\<close>

definition fromkeys :: "'a list \<Rightarrow> 'a list" where
  "fromkeys xs = rev (remdups (rev xs))"

definition courses_get :: "string \<Rightarrow> (Courses \<Rightarrow> string list) \<Rightarrow> string list" where
  "courses_get competency tier = (case map_of COURSE_MAPPING competency of None \<Rightarrow> [] | Some m \<Rightarrow> tier m)"

definition recommend_courses :: "Exam \<Rightarrow> CompetencyScore list \<Rightarrow> Recommendation" where
  "recommend_courses e db =
     (let comp_scores = sort_desc percentage (filter (\<lambda>r. exam r = pk e) db);
          pr = compute_improvement_priorities e db;
          prio = concat (map (\<lambda>w. courses_get (p_competency_name w) priority) (weak_of pr));
          compl = concat (map (\<lambda>c. courses_get (competency_name c) complementary)
                    (filter (\<lambda>c. 50 \<le> percentage c \<and> percentage c < 75) comp_scores));
          adv = concat (map (\<lambda>c. courses_get (competency_name c) advanced)
                    (filter (\<lambda>c. 75 \<le> percentage c) comp_scores))
      in \<lparr>priority_courses = fromkeys prio,
          complementary_courses = fromkeys compl,
          advanced_courses = fromkeys adv\<rparr>)"

section \<open>Violation deduction\<close>

definition violation_weight :: "string option \<Rightarrow> rat" where
  "violation_weight t =
     (case t of None \<Rightarrow> 0
      | Some n \<Rightarrow> dict_get [(''multiple_persons'', fl (30 / 100)), (''object_detected'', fl (25 / 100)),
                             (''audio_detected'', fl (15 / 100)), (''gaze_detected'', fl (10 / 100))] n 0)"

text \<open>The loop \<open>for v in violations: severity += weights.get(v.event_type, 0)\<close>.\<close>

fun add_weights :: "CheatingEvent list \<Rightarrow> rat \<Rightarrow> rat" where
  "add_weights [] severity = severity"
| "add_weights (v # vs) severity = add_weights vs (fadd severity (violation_weight (event_type v)))"

text \<open>
  \<open>QuerySet.first()\<close> on a query set without an ordering orders it by primary key and
  returns its first row, or \<open>None\<close> when there is none.
\<close>

definition first :: "CheatingEvent list \<Rightarrow> CheatingEvent option" where
  "first violations = (case sort_key pk violations of [] \<Rightarrow> None | v # _ \<Rightarrow> Some v)"

definition severity_of :: "CheatingEvent list \<Rightarrow> rat" where
  "severity_of violations =
     (let severity = add_weights violations 0
      in case first violations of
           None \<Rightarrow> severity
         | Some f \<Rightarrow> fadd severity (min (fmul (fl (of_int (tab_switch_count f))) (fl (15 / 100))) (fl (75 / 100))))"

definition calculate_violation_deduction :: "Exam \<Rightarrow> CheatingEvent list \<Rightarrow> int" where
  "calculate_violation_deduction e events =
     (let violations = filter (\<lambda>v. event_student v = student e) events
      in if 1 \<le> severity_of violations then 2 else 0)"

section \<open>Total score\<close>

text \<open>\<open>user_answers.get(k)\<close>: \<open>None\<close> for a key that is absent.\<close>

definition answer_get :: "(string \<rightharpoonup> pyval) \<Rightarrow> string \<Rightarrow> pyval" where
  "answer_get user_answers k = (case user_answers k of None \<Rightarrow> PyNone | Some v \<Rightarrow> v)"

definition is_correct :: "(string \<rightharpoonup> pyval) \<Rightarrow> Question \<Rightarrow> bool" where
  "is_correct user_answers q \<longleftrightarrow> answer_get user_answers (py_str (qid q)) = correct_answer q"

text \<open>
  \<open>competency_scores[comp] += self.MARKS[comp]\<close>: both subscripts raise \<open>KeyError\<close>
  for a key that the dictionary does not have.
\<close>

definition add_marks :: "string option \<Rightarrow> (string \<times> int) list \<Rightarrow> py_error + (string \<times> int) list" where
  "add_marks competency competency_scores =
     (case competency of None \<Rightarrow> Inl KeyError
      | Some c \<Rightarrow>
         (case map_of competency_scores c of None \<Rightarrow> Inl KeyError
          | Some cur \<Rightarrow>
             (case map_of MARKS c of None \<Rightarrow> Inl KeyError
              | Some m \<Rightarrow> Inr (AList.update c (cur + m) competency_scores))))"

fun grade :: "Question list \<Rightarrow> (string \<rightharpoonup> pyval) \<Rightarrow> (string \<times> int) list
                \<Rightarrow> py_error + (string \<times> int) list" where
  "grade [] user_answers competency_scores = Inr competency_scores"
| "grade (q # questions) user_answers competency_scores =
     (if is_correct user_answers q
      then (case add_marks (competency_type q) competency_scores of
              Inl err \<Rightarrow> Inl err
            | Inr competency_scores' \<Rightarrow> grade questions user_answers competency_scores')
      else grade questions user_answers competency_scores)"

text \<open>
  \<open>calculate_total_score\<close> returns the total; the \<open>CompetencyScore\<close> table it leaves
  behind is returned with it.
\<close>

definition calculate_total_score ::
  "Exam \<Rightarrow> CheatingEvent list \<Rightarrow> CompetencyScore list \<Rightarrow> Question list \<Rightarrow> (string \<rightharpoonup> pyval)
     \<Rightarrow> py_error + (int \<times> CompetencyScore list)" where
  "calculate_total_score e events db questions user_answers =
     (case grade questions user_answers (map (\<lambda>(c, m). (c, 0)) MARKS) of
        Inl err \<Rightarrow> Inl err
      | Inr competency_scores \<Rightarrow>
          (let db' = save_competency_breakdown e (map (\<lambda>(c, s). (c, of_int s)) competency_scores) db;
               total = sum_list (map snd competency_scores);
               total = total - calculate_violation_deduction e events;
               total = max 0 total
           in Inr (total, db')))"

section \<open>Ranking and percentile\<close>

text \<open>
  \<open>Exam.objects.filter(status="completed").order_by("-total_score", "-timestamp")\<close>.
  Rows that agree on both keys come in the order of the table.
\<close>

definition completed_ordered :: "Exam list \<Rightarrow> Exam list" where
  "completed_ordered exams =
     sort_key (\<lambda>x. (- total_score x, - timestamp x)) (filter (\<lambda>x. status x = ''completed'') exams)"

text \<open>\<open>exam.save()\<close> writes the instance over the row with its primary key.\<close>

definition save_exam :: "Exam \<Rightarrow> Exam list \<Rightarrow> Exam list" where
  "save_exam x exams = map (\<lambda>r. if pk r = pk x then x else r) exams"

text \<open>\<open>((total - rank) / total) * 100\<close> on integers (\<open>n\<close> is \<open>total\<close>): a true division,
  then a product.\<close>

definition percentile_of :: "int \<Rightarrow> int \<Rightarrow> py_error + rat" where
  "percentile_of n rnk =
     (case fdiv (of_int (n - rnk)) (of_int n) of
        Inl err \<Rightarrow> Inl err
      | Inr d \<Rightarrow> Inr (fmul d 100))"

text \<open>The loop \<open>for rank, exam in enumerate(all_exams, start=1)\<close>.\<close>

fun rank_loop :: "int \<Rightarrow> int \<Rightarrow> Exam list \<Rightarrow> Exam list \<Rightarrow> py_error + Exam list" where
  "rank_loop n rnk [] exams = Inr exams"
| "rank_loop n rnk (x # rest) exams =
     (case percentile_of n rnk of
        Inl err \<Rightarrow> Inl err
      | Inr p \<Rightarrow> rank_loop n (rnk + 1) rest (save_exam (x\<lparr>rank := rnk, percentile := p\<rparr>) exams))"

text \<open>
  \<open>calculate_ranking\<close>. The instances the loop updates are the ones the query built;
  \<open>self.exam\<close> is the instance the service was created with, and the loop does not
  touch it. The result is the pair returned and the \<open>Exam\<close> table.
\<close>

definition calculate_ranking :: "Exam \<Rightarrow> Exam list \<Rightarrow> py_error + ((int \<times> rat) \<times> Exam list)" where
  "calculate_ranking e exams =
     (let all_exams = completed_ordered exams;
          total = int (length all_exams)
      in case rank_loop total 1 all_exams exams of
           Inl err \<Rightarrow> Inl err
         | Inr exams' \<Rightarrow> Inr ((rank e, percentile e), exams'))"

section \<open>Example data\<close>

text \<open>
  Four completed exams. The instance \<open>exam_a\<close> was ranked first of one in an earlier
  pass; the other three were completed afterwards and have not been ranked yet.
\<close>

definition exam_a :: Exam where
  "exam_a = \<lparr>pk = 1, student = Some 7, status = ''completed'', timestamp = 100,
              total_score = 80, rank = 1, percentile = 0\<rparr>"

definition exam_b :: Exam where
  "exam_b = \<lparr>pk = 2, student = Some 8, status = ''completed'', timestamp = 200,
              total_score = 90, rank = 0, percentile = 0\<rparr>"

definition exam_c :: Exam where
  "exam_c = \<lparr>pk = 3, student = Some 9, status = ''completed'', timestamp = 300,
              total_score = 70, rank = 0, percentile = 0\<rparr>"

definition exam_d :: Exam where
  "exam_d = \<lparr>pk = 4, student = Some 10, status = ''completed'', timestamp = 400,
              total_score = 60, rank = 0, percentile = 0\<rparr>"

text \<open>An exam that is still running, the only row of its table.\<close>

definition exam_ongoing :: Exam where
  "exam_ongoing = \<lparr>pk = 1, student = Some 7, status = ''ongoing'', timestamp = 100,
                    total_score = 0, rank = 0, percentile = 0\<rparr>"

text \<open>
  The five rows that \<open>save_competency_breakdown\<close> creates for the exam with primary
  key 1 when no answer is correct: every percentage is 0.
\<close>

definition zero_scores :: "CompetencyScore list" where
  "zero_scores =
     [\<lparr>pk = 1, exam = 1, competency_name = ''critical_thinking'', raw_score = 0, max_score = 20,
       percentage = 0, performance_level = ''novice'', is_strength = False, is_weakness = False\<rparr>,
      \<lparr>pk = 2, exam = 1, competency_name = ''communication'', raw_score = 0, max_score = 10,
       percentage = 0, performance_level = ''novice'', is_strength = False, is_weakness = False\<rparr>,
      \<lparr>pk = 3, exam = 1, competency_name = ''adaptability'', raw_score = 0, max_score = 2,
       percentage = 0, performance_level = ''novice'', is_strength = False, is_weakness = False\<rparr>,
      \<lparr>pk = 4, exam = 1, competency_name = ''basic_engineering'', raw_score = 0, max_score = 25,
       percentage = 0, performance_level = ''novice'', is_strength = False, is_weakness = False\<rparr>,
      \<lparr>pk = 5, exam = 1, competency_name = ''technical'', raw_score = 0, max_score = 48,
       percentage = 0, performance_level = ''novice'', is_strength = False, is_weakness = False\<rparr>]"

section \<open>Auxiliary notions for the proofs\<close>

text \<open>
  What \<open>identify_strengths_weaknesses\<close> does to one row, given the primary keys \<open>S\<close>
  of the chosen strengths and \<open>W\<close> of the chosen weaknesses.
\<close>

definition flag_row :: "Exam \<Rightarrow> nat set \<Rightarrow> nat set \<Rightarrow> CompetencyScore \<Rightarrow> CompetencyScore" where
  "flag_row e S W r =
     r\<lparr>is_strength := (pk r \<in> S \<or> (exam r \<noteq> pk e \<and> is_strength r)),
       is_weakness := (pk r \<in> W \<or> (exam r \<noteq> pk e \<and> is_weakness r))\<rparr>"

text \<open>
  The five rows created for raw scores 12, 6, 2, 20 and 36 (three of five, three of
  five, two of two, four of five and six of eight questions right): percentages 60, 60,
  100, 80 and 75.
\<close>

definition mixed_scores :: "CompetencyScore list" where
  "mixed_scores =
     [\<lparr>pk = 1, exam = 1, competency_name = ''critical_thinking'', raw_score = 12, max_score = 20,
       percentage = 60, performance_level = ''developing'', is_strength = False, is_weakness = False\<rparr>,
      \<lparr>pk = 2, exam = 1, competency_name = ''communication'', raw_score = 6, max_score = 10,
       percentage = 60, performance_level = ''developing'', is_strength = False, is_weakness = False\<rparr>,
      \<lparr>pk = 3, exam = 1, competency_name = ''adaptability'', raw_score = 2, max_score = 2,
       percentage = 100, performance_level = ''advanced'', is_strength = False, is_weakness = False\<rparr>,
      \<lparr>pk = 4, exam = 1, competency_name = ''basic_engineering'', raw_score = 20, max_score = 25,
       percentage = 80, performance_level = ''proficient'', is_strength = False, is_weakness = False\<rparr>,
      \<lparr>pk = 5, exam = 1, competency_name = ''technical'', raw_score = 36, max_score = 48,
       percentage = 75, performance_level = ''proficient'', is_strength = False, is_weakness = False\<rparr>]"

text \<open>The rows of \<open>mixed_scores\<close> as the table holds them after scoring.\<close>

definition mixed_stored :: "CompetencyScore list" where
  "mixed_stored =
     [\<lparr>pk = 1, exam = 1, competency_name = ''critical_thinking'', raw_score = 12, max_score = 20,
       percentage = 60, performance_level = ''developing'', is_strength = False, is_weakness = True\<rparr>,
      \<lparr>pk = 2, exam = 1, competency_name = ''communication'', raw_score = 6, max_score = 10,
       percentage = 60, performance_level = ''developing'', is_strength = False, is_weakness = True\<rparr>,
      \<lparr>pk = 3, exam = 1, competency_name = ''adaptability'', raw_score = 2, max_score = 2,
       percentage = 100, performance_level = ''advanced'', is_strength = True, is_weakness = False\<rparr>,
      \<lparr>pk = 4, exam = 1, competency_name = ''basic_engineering'', raw_score = 20, max_score = 25,
       percentage = 80, performance_level = ''proficient'', is_strength = True, is_weakness = False\<rparr>,
      \<lparr>pk = 5, exam = 1, competency_name = ''technical'', raw_score = 36, max_score = 48,
       percentage = 75, performance_level = ''proficient'', is_strength = False, is_weakness = False\<rparr>]"

text \<open>A question whose competency is not one of the five of \<open>MARKS\<close>.\<close>

definition leadership_question :: Question where
  "leadership_question =
     \<lparr>qid = PyInt 1, correct_answer = PyStr ''A'', competency_type = Some ''leadership''\<rparr>"

text \<open>The two events of the scenario of claim C5, of student 7, with \<open>n\<close> tab switches on
  the first.\<close>

definition two_events :: "int \<Rightarrow> CheatingEvent list" where
  "two_events n =
     [\<lparr>pk = 1, event_student = Some 7, event_type = Some ''multiple_persons'', tab_switch_count = n\<rparr>,
      \<lparr>pk = 2, event_student = Some 7, event_type = Some ''object_detected'', tab_switch_count = 0\<rparr>]"

text \<open>
  Stored rows with a percentage just below the target of 75, where the product
  0.125 \<times> 0.30 has more than three decimals.
\<close>

definition near_target_stored :: "CompetencyScore list" where
  "near_target_stored =
     [\<lparr>pk = 1, exam = 1, competency_name = ''critical_thinking'', raw_score = 14975 / 1000, max_score = 20,
       percentage = 74875 / 1000, performance_level = ''proficient'', is_strength = False, is_weakness = True\<rparr>,
      \<lparr>pk = 2, exam = 1, competency_name = ''communication'', raw_score = 6, max_score = 10,
       percentage = 60, performance_level = ''developing'', is_strength = False, is_weakness = True\<rparr>,
      \<lparr>pk = 3, exam = 1, competency_name = ''adaptability'', raw_score = 2, max_score = 2,
       percentage = 100, performance_level = ''advanced'', is_strength = True, is_weakness = False\<rparr>,
      \<lparr>pk = 4, exam = 1, competency_name = ''basic_engineering'', raw_score = 20, max_score = 25,
       percentage = 80, performance_level = ''proficient'', is_strength = True, is_weakness = False\<rparr>,
      \<lparr>pk = 5, exam = 1, competency_name = ''technical'', raw_score = 36, max_score = 48,
       percentage = 75, performance_level = ''proficient'', is_strength = False, is_weakness = False\<rparr>]"

text \<open>Two questions, on an exam whose student has the two events above.\<close>

definition technical_question :: Question where
  "technical_question =
     \<lparr>qid = PyInt 1, correct_answer = PyStr ''A'', competency_type = Some ''technical''\<rparr>"

definition adaptability_question :: Question where
  "adaptability_question =
     \<lparr>qid = PyInt 12, correct_answer = PyStr ''C'', competency_type = Some ''adaptability''\<rparr>"

definition two_questions :: "Question list" where
  "two_questions = [technical_question, adaptability_question]"

section \<open>The claims in their own words\<close>





text \<open>
  The entry of the priority list as claim C6 words it: the score is
  round(max(0, 75 - percentage) \<times> weight, 3), with weight 0 for a competency that
  \<open>COMPETENCY_WEIGHTS\<close> does not configure.
\<close>

definition claim_priority_score :: "rat \<Rightarrow> string \<Rightarrow> rat" where
  "claim_priority_score pct name =
     py_round (fmul (max 0 (fsub 75 pct)) (dict_get COMPETENCY_WEIGHTS name 0)) 3"

definition claim_entry :: "CompetencyScore \<Rightarrow> Priority" where
  "claim_entry c =
     \<lparr>p_competency_name = competency_name c, p_percentage = percentage c,
      priority_score = claim_priority_score (percentage c) (competency_name c),
      p_is_strength = is_strength c, p_is_weakness = is_weakness c\<rparr>"

text \<open>
  For claim C8: the mark a question is worth, whether its competency is one of the
  five of \<open>MARKS\<close>, and the marks of the correctly answered questions.
\<close>

definition mark_of :: "string option \<Rightarrow> int" where
  "mark_of c = (case c of None \<Rightarrow> 0 | Some n \<Rightarrow> dict_get MARKS n 0)"

definition in_taxonomy :: "string option \<Rightarrow> bool" where
  "in_taxonomy c = (case c of None \<Rightarrow> False | Some n \<Rightarrow> n \<in> set (map fst MARKS))"

definition correct_marks :: "Question list \<Rightarrow> (string \<rightharpoonup> pyval) \<Rightarrow> int" where
  "correct_marks questions user_answers =
     sum_list (map (\<lambda>q. mark_of (competency_type q)) (filter (is_correct user_answers) questions))"

text \<open>Raw scores out of range: above the maximum, for a name without a maximum, and
  negative.\<close>

definition odd_raw :: "(string \<times> rat) list" where
  "odd_raw = [(''technical'', 100), (''leadership'', 5), (''communication'', - 3)]"

section \<open>Ranking\<close>

lemma rank_loop_returns: "n \<noteq> 0 \<Longrightarrow> \<exists>exams'. rank_loop n rnk xs exams = Inr exams'"
  by (induction xs arbitrary: rnk exams) (simp_all add: percentile_of_def fdiv_def)

lemma calculate_ranking_returns:
  "\<exists>exams'. calculate_ranking e exams = Inr ((rank e, percentile e), exams')"
proof (cases "completed_ordered exams")
  case Nil
  then show ?thesis by (simp add: calculate_ranking_def)
next
  case (Cons x xs)
  then have "int (length (completed_ordered exams)) \<noteq> 0" by simp
  from rank_loop_returns [OF this] obtain exams' where
    "rank_loop (int (length (completed_ordered exams))) 1 (completed_ordered exams) exams = Inr exams'"
    by blast
  then show ?thesis by (simp add: calculate_ranking_def Let_def)
qed

text \<open>
  Claim C2, as stated, fails: with no completed exam the loop body, the only place that
  divides, is never entered. On a table whose only exam is still running the call
  returns the rank and percentile of the instance and leaves the table as it was.
\<close>

theorem calculate_ranking_empty_cohort_returns:
  "calculate_ranking exam_ongoing [exam_ongoing] \<noteq> Inl ZeroDivisionError
   \<and> calculate_ranking exam_ongoing [exam_ongoing] = Inr ((0, 0), [exam_ongoing])"
  by (simp add: calculate_ranking_def completed_ordered_def exam_ongoing_def)

text \<open>
  Claim C2, amended: \<open>calculate_ranking\<close> never fails with a division by zero. For every
  table it returns normally, with the rank and percentile held by the instance of the
  service; when no exam is completed it writes nothing.
\<close>

theorem calculate_ranking_never_divides_by_zero:
  "(\<exists>exams'. calculate_ranking e exams = Inr ((rank e, percentile e), exams'))
   \<and> (filter (\<lambda>x. status x = ''completed'') exams = []
        \<longrightarrow> calculate_ranking e exams = Inr ((rank e, percentile e), exams))"
  using calculate_ranking_returns [of e exams]
  by (simp add: calculate_ranking_def completed_ordered_def)

theorem calculate_ranking_never_divides_by_zero_witness:
  "filter (\<lambda>x. status x = ''completed'') [exam_ongoing] = []
   \<and> calculate_ranking exam_a [exam_ongoing] = Inr ((1, 0), [exam_ongoing])"
  using calculate_ranking_never_divides_by_zero [of exam_a "[exam_ongoing]"]
  by (simp add: exam_ongoing_def exam_a_def)

text \<open>
  Claim C4 at its failing input. The service holds \<open>exam_a\<close> with the rank 1 and
  percentile 0 of an earlier pass. The pass writes rank 2 and percentile 50 to the row
  of \<open>exam_a\<close>, and every other rank and percentile as the claim says, but the pair
  returned is the one the instance still holds: (1, 0).
\<close>

theorem calculate_ranking_returns_stale_pair:
  "calculate_ranking exam_a [exam_a, exam_b, exam_c, exam_d] =
     Inr ((1, 0),
          [exam_a\<lparr>rank := 2, percentile := 50\<rparr>, exam_b\<lparr>rank := 1, percentile := 75\<rparr>,
           exam_c\<lparr>rank := 3, percentile := 25\<rparr>, exam_d\<lparr>rank := 4, percentile := 0\<rparr>])"
  by code_simp

section \<open>Strengths and weaknesses: how many are flagged\<close>

lemma set_sort_desc: "set (sort_desc f xs) = set xs"
  by (simp add: sort_desc_def)

lemma length_sort_desc: "length (sort_desc f xs) = length xs"
  by (simp add: sort_desc_def)

lemma distinct_map_sort_desc: "distinct (map g (sort_desc f xs)) = distinct (map g xs)"
  by (simp add: sort_desc_def distinct_map)

lemma distinct_map_sort_key: "distinct (map g (sort_key f xs)) = distinct (map g xs)"
  by (simp add: distinct_map)

lemma mark_strengths_map:
  "mark_strengths sel db = map (\<lambda>r. if pk r \<in> pk ` set sel then r\<lparr>is_strength := True\<rparr> else r) db"
proof (induction sel arbitrary: db)
  case Nil
  then show ?case by simp
next
  case (Cons c sel)
  show ?case
    by (simp add: Cons.IH save_is_strength_def) 
qed

lemma mark_weaknesses_map:
  "mark_weaknesses sel db = map (\<lambda>r. if pk r \<in> pk ` set sel then r\<lparr>is_weakness := True\<rparr> else r) db"
proof (induction sel arbitrary: db)
  case Nil
  then show ?case by simp
next
  case (Cons c sel)
  show ?case
    by (simp add: Cons.IH save_is_weakness_def) 
qed

lemma identify_map:
  "comp_scores \<noteq> [] \<Longrightarrow>
   identify_strengths_weaknesses e comp_scores db =
     map (flag_row e (pk ` set (strengths_of comp_scores)) (pk ` set (weaknesses_of comp_scores))) db"
  by (auto simp: identify_strengths_weaknesses_def mark_strengths_map mark_weaknesses_map
      update_flags_false_def flag_row_def)

lemma length_filter_pk:
  assumes "distinct (map pk db)" "A \<subseteq> pk ` {r \<in> set db. Q r}"
  shows "length (filter (\<lambda>r. Q r \<and> pk r \<in> A) db) = card A"
proof -
  from assms(1) have d: "distinct db" and inj: "inj_on pk (set db)"
    by (simp_all add: distinct_map)
  have "length (filter (\<lambda>r. Q r \<and> pk r \<in> A) db) = card {r \<in> set db. Q r \<and> pk r \<in> A}"
    using d by (simp add: distinct_length_filter Int_def conj_commute)
  also have "\<dots> = card (pk ` {r \<in> set db. Q r \<and> pk r \<in> A})"
    by (rule card_image [symmetric]) (rule inj_on_subset [OF inj], auto)
  also have "pk ` {r \<in> set db. Q r \<and> pk r \<in> A} = A"
    using assms(2) by auto
  finally show ?thesis .
qed

lemma distinct_map_take: "distinct (map g xs) \<Longrightarrow> distinct (map g (take n xs))"
  by (simp add: distinct_take flip: take_map)

lemma card_pk_take2:
  assumes "distinct (map pk ys)" "2 \<le> length ys"
  shows "card (pk ` set (take 2 ys)) = 2"
proof -
  have "distinct (map pk (take 2 ys))"
    using assms(1) by (rule distinct_map_take)
  then have "card (set (map pk (take 2 ys))) = length (map pk (take 2 ys))"
    by (rule distinct_card)
  with assms(2) show ?thesis by simp
qed

lemma card_strengths_of:
  assumes "distinct (map pk cs)" "2 \<le> length cs"
  shows "card (pk ` set (strengths_of cs)) = 2"
proof -
  let ?d = "sort_desc percentage cs"
  let ?ys = "if length (filter (\<lambda>c. 75 \<le> percentage c) ?d) < 2 then take 2 ?d
             else filter (\<lambda>c. 75 \<le> percentage c) ?d"
  have d: "distinct (map pk ?d)"
    using assms(1) by (simp add: distinct_map_sort_desc)
  have "distinct (map pk ?ys)"
    using d by (simp add: distinct_map_take distinct_map_filter)
  moreover have "2 \<le> length ?ys"
    using assms(2) by (simp add: length_sort_desc)
  ultimately show ?thesis
    unfolding strengths_of_def Let_def by (rule card_pk_take2)
qed

lemma card_weaknesses_of:
  assumes "distinct (map pk cs)" "2 \<le> length cs"
  shows "card (pk ` set (weaknesses_of cs)) = 2"
proof -
  let ?a = "sort_key percentage (sort_desc percentage cs)"
  let ?ys = "if length (filter (\<lambda>c. percentage c < 60) ?a) < 2 then take 2 ?a
             else filter (\<lambda>c. percentage c < 60) ?a"
  have a: "distinct (map pk ?a)"
    using assms(1) by (simp add: distinct_map_sort_desc distinct_map_sort_key)
  have "distinct (map pk ?ys)"
    using a by (simp add: distinct_map_take distinct_map_filter)
  moreover have "2 \<le> length ?ys"
    using assms(2) by (simp add: length_sort_desc)
  ultimately show ?thesis
    unfolding weaknesses_of_def Let_def by (rule card_pk_take2)
qed

lemma set_strengths_of: "set (strengths_of cs) \<subseteq> set cs"
  by (auto simp: strengths_of_def Let_def set_sort_desc dest!: in_set_takeD)

lemma set_weaknesses_of: "set (weaknesses_of cs) \<subseteq> set cs"
  by (auto simp: weaknesses_of_def Let_def set_sort_desc dest!: in_set_takeD)

text \<open>
  Claim C1: for at least two records with distinct primary keys that are rows of the
  exam, the table has, after \<open>identify_strengths_weaknesses\<close>, exactly two rows of
  the exam flagged as strength and exactly two flagged as weakness, whatever the
  percentages are (all of them 75 or more, or all below 60, included).
\<close>

theorem identify_flags_exactly_two:
  assumes "2 \<le> length comp_scores" "distinct (map pk comp_scores)" "distinct (map pk db)"
    "set (map pk comp_scores) \<subseteq> set (map pk (filter (\<lambda>r. exam r = pk e) db))"
  shows "length (filter is_strength (filter (\<lambda>r. exam r = pk e)
            (identify_strengths_weaknesses e comp_scores db))) = 2
       \<and> length (filter is_weakness (filter (\<lambda>r. exam r = pk e)
            (identify_strengths_weaknesses e comp_scores db))) = 2"
proof -
  let ?S = "pk ` set (strengths_of comp_scores)" and ?W = "pk ` set (weaknesses_of comp_scores)"
  from assms(1) have ne: "comp_scores \<noteq> []" by auto
  from assms(4) have sub: "pk ` set comp_scores \<subseteq> pk ` {r \<in> set db. exam r = pk e}"
    by auto
  have S: "?S \<subseteq> pk ` {r \<in> set db. exam r = pk e}"
    using set_strengths_of [of comp_scores] sub by blast
  have W: "?W \<subseteq> pk ` {r \<in> set db. exam r = pk e}"
    using set_weaknesses_of [of comp_scores] sub by blast
  have "filter is_strength (filter (\<lambda>r. exam r = pk e) (map (flag_row e ?S ?W) db))
        = map (flag_row e ?S ?W) (filter (\<lambda>r. exam r = pk e \<and> pk r \<in> ?S) db)"
    by (induction db) (auto simp: flag_row_def)
  moreover have "filter is_weakness (filter (\<lambda>r. exam r = pk e) (map (flag_row e ?S ?W) db))
        = map (flag_row e ?S ?W) (filter (\<lambda>r. exam r = pk e \<and> pk r \<in> ?W) db)"
    by (induction db) (auto simp: flag_row_def)
  ultimately show ?thesis
    using length_filter_pk [OF assms(3) S] length_filter_pk [OF assms(3) W]
      card_strengths_of [OF assms(2,1)] card_weaknesses_of [OF assms(2,1)]
    by (simp add: identify_map [OF ne])
qed

theorem identify_flags_exactly_two_witness:
  "2 \<le> length zero_scores \<and> distinct (map pk zero_scores)
   \<and> set (map pk zero_scores) \<subseteq> set (map pk (filter (\<lambda>r. exam r = pk exam_a) zero_scores))
   \<and> length (filter is_strength (filter (\<lambda>r. exam r = pk exam_a)
          (identify_strengths_weaknesses exam_a zero_scores zero_scores))) = 2
   \<and> length (filter is_weakness (filter (\<lambda>r. exam r = pk exam_a)
          (identify_strengths_weaknesses exam_a zero_scores zero_scores))) = 2"
  using identify_flags_exactly_two [of zero_scores zero_scores exam_a]
  by (simp add: zero_scores_def exam_a_def)

section \<open>Strengths and weaknesses: which records are flagged\<close>

lemma map_sort_key: "map f (sort_key f xs) = sort (map f xs)"
  by (rule properties_for_sort [symmetric]) simp_all

lemma sort_cong_mset: "mset xs = mset ys \<Longrightarrow> sort xs = sort ys"
  by (rule properties_for_sort) simp_all

lemma map_sort_desc: "map f (sort_desc f xs) = rev (sort (map f xs))"
proof -
  have "map f (sort_desc f xs) = rev (sort (map f (rev xs)))"
    by (simp add: sort_desc_def map_sort_key flip: rev_map)
  also have "sort (map f (rev xs)) = sort (map f xs)"
    by (rule sort_cong_mset) simp
  finally show ?thesis .
qed

lemma sorted_wrt_sort_desc: "sorted_wrt (\<lambda>a b. f b \<le> f a) (sort_desc f xs)"
proof -
  have "sorted (map f (sort_key f (rev xs)))" by simp
  then have "sorted_wrt (\<lambda>a b. f a \<le> f b) (sort_key f (rev xs))"
    by (simp add: sorted_map)
  then show ?thesis
    by (simp add: sort_desc_def sorted_wrt_rev)
qed

lemma filter_ge_takeWhile:
  fixes f :: "'a \<Rightarrow> 'k::linorder"
  shows "sorted_wrt (\<lambda>a b. f b \<le> f a) xs \<Longrightarrow> filter (\<lambda>c. t \<le> f c) xs = takeWhile (\<lambda>c. t \<le> f c) xs"
proof (induction xs)
  case Nil
  then show ?case by simp
next
  case (Cons x xs)
  show ?case
  proof (cases "t \<le> f x")
    case True
    with Cons show ?thesis by simp
  next
    case False
    with Cons.prems have "\<forall>y\<in>set xs. \<not> t \<le> f y" by (auto dest: order_trans)
    then have "filter (\<lambda>c. t \<le> f c) xs = []" by (simp add: filter_empty_conv)
    with False show ?thesis by simp
  qed
qed

lemma filter_less_takeWhile:
  fixes f :: "'a \<Rightarrow> 'k::linorder"
  shows "sorted_wrt (\<lambda>a b. f a \<le> f b) xs \<Longrightarrow> filter (\<lambda>c. f c < t) xs = takeWhile (\<lambda>c. f c < t) xs"
proof (induction xs)
  case Nil
  then show ?case by simp
next
  case (Cons x xs)
  show ?case
  proof (cases "f x < t")
    case True
    with Cons show ?thesis by simp
  next
    case False
    with Cons.prems have "\<forall>y\<in>set xs. \<not> f y < t" by (auto dest: le_less_trans)
    then have "filter (\<lambda>c. f c < t) xs = []" by (simp add: filter_empty_conv)
    with False show ?thesis by simp
  qed
qed

lemma take_takeWhile: "n \<le> length (takeWhile P xs) \<Longrightarrow> take n (takeWhile P xs) = take n xs"
proof -
  assume n: "n \<le> length (takeWhile P xs)"
  have "take n xs = take n (takeWhile P xs @ dropWhile P xs)" by simp
  also have "\<dots> = take n (takeWhile P xs)" using n by (simp del: takeWhile_dropWhile_id)
  finally show ?thesis by simp
qed

lemma strengths_of_top2: "strengths_of cs = take 2 (sort_desc percentage cs)"
proof -
  let ?d = "sort_desc percentage cs"
  have "filter (\<lambda>c. 75 \<le> percentage c) ?d = takeWhile (\<lambda>c. 75 \<le> percentage c) ?d"
    by (rule filter_ge_takeWhile) (rule sorted_wrt_sort_desc)
  then show ?thesis
    by (simp add: strengths_of_def Let_def take_takeWhile)
qed

lemma weaknesses_of_bottom2:
  "weaknesses_of cs = take 2 (sort_key percentage (sort_desc percentage cs))"
proof -
  let ?a = "sort_key percentage (sort_desc percentage cs)"
  have "sorted (map percentage ?a)" by simp
  then have "sorted_wrt (\<lambda>a b. percentage a \<le> percentage b) ?a" by (simp add: sorted_map)
  then have "filter (\<lambda>c. percentage c < 60) ?a = takeWhile (\<lambda>c. percentage c < 60) ?a"
    by (rule filter_less_takeWhile)
  then show ?thesis
    by (simp add: weaknesses_of_def Let_def take_takeWhile)
qed

lemma strengths_percentage:
  assumes "x \<in> set (strengths_of cs)" "2 \<le> length cs"
  shows "sort (map percentage cs) ! (length cs - 2) \<le> percentage x"
proof -
  let ?d = "sort_desc percentage cs" and ?ps = "sort (map percentage cs)"
  from assms(1) obtain i where i: "i < 2" "i < length ?d" "x = ?d ! i"
    by (auto simp: strengths_of_top2 in_set_conv_nth)
  have len: "length ?ps = length cs" by simp
  have "percentage x = map percentage ?d ! i" using i by simp
  also have "\<dots> = rev ?ps ! i" by (simp add: map_sort_desc)
  also have "\<dots> = ?ps ! (length cs - Suc i)"
    using i assms(2) by (simp add: rev_nth length_sort_desc)
  finally have "percentage x = ?ps ! (length cs - Suc i)" .
  moreover have "?ps ! (length cs - 2) \<le> ?ps ! (length cs - Suc i)"
    using i assms(2) by (intro sorted_nth_mono) (auto simp: len)
  ultimately show ?thesis by simp
qed

lemma weaknesses_percentage:
  assumes "x \<in> set (weaknesses_of cs)" "2 \<le> length cs"
  shows "percentage x \<le> sort (map percentage cs) ! 1"
proof -
  let ?a = "sort_key percentage (sort_desc percentage cs)" and ?ps = "sort (map percentage cs)"
  from assms(1) obtain i where i: "i < 2" "i < length ?a" "x = ?a ! i"
    by (auto simp: weaknesses_of_bottom2 in_set_conv_nth)
  have "map percentage ?a = sort (map percentage (sort_desc percentage cs))"
    by (rule map_sort_key)
  also have "\<dots> = ?ps"
    by (rule sort_cong_mset) (simp add: sort_desc_def)
  finally have m: "map percentage ?a = ?ps" .
  have "percentage x = map percentage ?a ! i" using i by simp
  then have "percentage x = ?ps ! i" by (simp add: m)
  moreover have "?ps ! i \<le> ?ps ! 1"
    using i assms(2) by (intro sorted_nth_mono) (auto simp: length_sort_desc)
  ultimately show ?thesis by simp
qed

text \<open>
  Claim C10, as stated, fails. The sort is stable, so among equal percentages the
  top two and the bottom two are the same records: when no answer is correct, all five
  percentages are 0 and the first two competencies are flagged strength and weakness.
\<close>

theorem identify_five_records_both_flags:
  "3 \<le> length zero_scores
   \<and> map (\<lambda>r. (competency_name r, is_strength r, is_weakness r))
         (identify_strengths_weaknesses exam_a zero_scores zero_scores) =
       [(''critical_thinking'', True, True), (''communication'', True, True),
        (''adaptability'', False, False), (''basic_engineering'', False, False),
        (''technical'', False, False)]"
  by code_simp

text \<open>
  Claim C10, amended: for four or more records with distinct primary keys whose
  second-highest percentage is strictly greater than their second-lowest percentage
  (so in particular when all percentages differ), no row of the exam ends up flagged
  both strength and weakness.
\<close>

theorem identify_no_record_both_flags:
  assumes "4 \<le> length comp_scores" "distinct (map pk comp_scores)"
    "sort (map percentage comp_scores) ! 1
       < sort (map percentage comp_scores) ! (length comp_scores - 2)"
  shows "\<forall>r\<in>set (identify_strengths_weaknesses e comp_scores db).
           exam r = pk e \<longrightarrow> \<not> (is_strength r \<and> is_weakness r)"
proof -
  let ?S = "pk ` set (strengths_of comp_scores)" and ?W = "pk ` set (weaknesses_of comp_scores)"
  from assms(1) have ne: "comp_scores \<noteq> []" and two: "2 \<le> length comp_scores" by auto
  have disj: "?S \<inter> ?W = {}"
  proof (rule ccontr)
    assume "?S \<inter> ?W \<noteq> {}"
    then obtain x y where x: "x \<in> set (strengths_of comp_scores)"
      and y: "y \<in> set (weaknesses_of comp_scores)" and eq: "pk x = pk y"
      by auto
    from x y have "x \<in> set comp_scores" "y \<in> set comp_scores"
      using set_strengths_of set_weaknesses_of by blast+
    with eq assms(2) have "x = y"
      by (auto simp: distinct_map dest: inj_onD)
    with strengths_percentage [OF x two] weaknesses_percentage [OF y two] assms(3)
    show False by simp
  qed
  show ?thesis
    using disj by (auto simp: identify_map [OF ne] flag_row_def)
qed

theorem identify_no_record_both_flags_witness:
  "4 \<le> length mixed_scores \<and> distinct (map pk mixed_scores)
   \<and> sort (map percentage mixed_scores) ! 1
       < sort (map percentage mixed_scores) ! (length mixed_scores - 2)
   \<and> list_all (\<lambda>r. \<not> (is_strength r \<and> is_weakness r))
         (filter (\<lambda>r. exam r = pk exam_a)
           (identify_strengths_weaknesses exam_a mixed_scores mixed_scores))"
  using identify_no_record_both_flags [of mixed_scores exam_a mixed_scores]
  by (simp add: mixed_scores_def exam_a_def list_all_iff)

section \<open>Course recommendation\<close>

lemma identify_mixed_scores:
  "identify_strengths_weaknesses exam_a mixed_scores mixed_scores = mixed_stored"
  by code_simp

lemma priorities_mixed_stored:
  "compute_improvement_priorities exam_a mixed_stored =
     [\<lparr>p_competency_name = ''critical_thinking'', p_percentage = 60, priority_score = 9 / 2,
       p_is_strength = False, p_is_weakness = True\<rparr>,
      \<lparr>p_competency_name = ''communication'', p_percentage = 60, priority_score = 3,
       p_is_strength = False, p_is_weakness = True\<rparr>,
      \<lparr>p_competency_name = ''adaptability'', p_percentage = 100, priority_score = 0,
       p_is_strength = True, p_is_weakness = False\<rparr>,
      \<lparr>p_competency_name = ''basic_engineering'', p_percentage = 80, priority_score = 0,
       p_is_strength = True, p_is_weakness = False\<rparr>,
      \<lparr>p_competency_name = ''technical'', p_percentage = 75, priority_score = 0,
       p_is_strength = False, p_is_weakness = False\<rparr>]"
  by code_simp

text \<open>
  Claim C3 at its failing input: the stored percentages are 60, 60, 100, 80 and 75, none
  below 60. The fallback \<open>pr[-2:]\<close> takes the last two entries of the list sorted by
  descending priority score, which are basic_engineering (80) and technical (75), not the
  two entries with the lowest percentage, critical_thinking and communication (60).
\<close>

theorem weak_fallback_takes_lowest_priority:
  "map p_percentage (compute_improvement_priorities exam_a mixed_stored) = [60, 60, 100, 80, 75]
   \<and> map p_competency_name (weak_of (compute_improvement_priorities exam_a mixed_stored)) =
       [''basic_engineering'', ''technical'']
   \<and> map p_percentage (weak_of (compute_improvement_priorities exam_a mixed_stored)) = [80, 75]"
  by (simp add: priorities_mixed_stored weak_of_def)

section \<open>Total score: unknown competencies\<close>

lemma py_str_1: "py_str (PyInt 1) = ''1''"
  by code_simp

text \<open>
  Claim C9 at its failing input: one question tagged \<open>leadership\<close>. Answered
  correctly, the subscript \<open>competency_scores[comp]\<close> raises \<open>KeyError\<close>; answered
  wrongly, the tag is never looked up and the call returns.
\<close>

theorem calculate_total_score_unknown_competency:
  "calculate_total_score e events db [leadership_question] [''1'' \<mapsto> PyStr ''A''] = Inl KeyError
   \<and> (\<exists>t db'. calculate_total_score e events db [leadership_question] [''1'' \<mapsto> PyStr ''B'']
        = Inr (t, db'))"
  by (simp add: calculate_total_score_def is_correct_def answer_get_def add_marks_def MARKS_def
      leadership_question_def Let_def py_str_1 del: py_str.simps)

section \<open>Violation deduction\<close>

lemma fl_0: "fl 0 = 0"
  by (simp add: fl_def)


lemma vw_persons: "violation_weight (Some ''multiple_persons'') = 5404319552844595 / 18014398509481984"
  by code_simp
lemma vw_object: "violation_weight (Some ''object_detected'') = 1 / 4"
  by code_simp


lemma persons_1: "fadd 0 (5404319552844595 / 18014398509481984) = 5404319552844595 / 18014398509481984"
  by code_simp

lemma object_2: "fadd (5404319552844595 / 18014398509481984) (1 / 4) = 2476979795053773 / 4503599627370496"
  by code_simp

lemma add_weights_two_events: "add_weights (two_events n) 0 = 2476979795053773 / 4503599627370496"
  by (simp add: two_events_def vw_persons vw_object persons_1 object_2)

lemma first_two_events:
  "first (two_events n) = Some \<lparr>pk = 1, event_student = Some 7,
     event_type = Some ''multiple_persons'', tab_switch_count = n\<rparr>"
  by (simp add: first_def two_events_def)

lemma tab_term_4: "min (fmul (fl 4) (fl (3 / 20))) (fl (3 / 4)) = 5404319552844595 / 9007199254740992"
  by code_simp

lemma two_events_4: "fadd (2476979795053773 / 4503599627370496) (5404319552844595 / 9007199254740992)
    = 2589569785738035 / 2251799813685248"
  by code_simp


lemma severity_of_two_events_4: "severity_of (two_events 4) = 2589569785738035 / 2251799813685248"
  by (simp add: severity_of_def add_weights_two_events first_two_events
      tab_term_4 two_events_4)


lemma filter_two_events:
  "filter (\<lambda>v. event_student v = student exam_a) (two_events n) = two_events n"
  by (simp add: two_events_def exam_a_def)







lemma deduction_two_events_4: "calculate_violation_deduction exam_a (two_events 4) = 2"
  by (simp add: calculate_violation_deduction_def filter_two_events severity_of_two_events_4
      del: filter.simps)



section \<open>Competency breakdown: the stored percentage\<close>

lemma percentage_of_range: "0 \<le> percentage_of c raw \<and> percentage_of c raw \<le> 100"
  by (simp add: percentage_of_def Let_def)

lemma create_score_fields:
  "exam (create_score e c raw db) = pk e" "competency_name (create_score e c raw db) = c"
  "0 \<le> percentage (create_score e c raw db)" "percentage (create_score e c raw db) \<le> 100"
  using percentage_of_range [of c raw] by (simp_all add: create_score_def)

lemma create_scores_rows:
  "\<exists>news. create_scores e scores db created = (db @ news, created @ news)
     \<and> (\<forall>r\<in>set news. exam r = pk e \<and> 0 \<le> percentage r \<and> percentage r \<le> 100)
     \<and> map competency_name news = map fst scores"
proof (induction scores arbitrary: db created)
  case Nil
  then show ?case by simp
next
  case (Cons s scores)
  obtain c raw where s: "s = (c, raw)" by (cases s)
  let ?obj = "create_score e c raw db"
  from Cons.IH [of "db @ [?obj]" "created @ [?obj]"] obtain news where
    n: "create_scores e scores (db @ [?obj]) (created @ [?obj]) = ((db @ [?obj]) @ news, (created @ [?obj]) @ news)"
      "\<forall>r\<in>set news. exam r = pk e \<and> 0 \<le> percentage r \<and> percentage r \<le> 100"
      "map competency_name news = map fst scores"
    by blast
  show ?case
    by (rule exI [of _ "?obj # news"]) (simp add: s n Let_def create_score_fields)
qed

lemma identify_keeps_fields:
  "map (\<lambda>r. (exam r, competency_name r, percentage r)) (identify_strengths_weaknesses e cs db)
     = map (\<lambda>r. (exam r, competency_name r, percentage r)) db"
proof (cases "cs = []")
  case True
  then show ?thesis by (simp add: identify_strengths_weaknesses_def)
next
  case False
  then show ?thesis by (simp add: identify_map flag_row_def)
qed

lemma filter_via_fields:
  assumes "map (\<lambda>r. (exam r, competency_name r, percentage r)) xs
         = map (\<lambda>r. (exam r, competency_name r, percentage r)) ys"
  shows "map (\<lambda>r. (competency_name r, percentage r)) (filter (\<lambda>r. exam r = k) xs)
       = map (\<lambda>r. (competency_name r, percentage r)) (filter (\<lambda>r. exam r = k) ys)"
  using assms by (induction xs arbitrary: ys) auto

lemma save_odd_raw:
  "map (\<lambda>r. (competency_name r, max_score r, percentage r)) (save_competency_breakdown exam_a odd_raw [])
     = [(''technical'', 48, 100), (''leadership'', 0, 0), (''communication'', 10, 0)]"
  by code_simp

text \<open>
  Claim C7: after \<open>save_competency_breakdown\<close>, for any raw scores and names, every
  row of the exam has a percentage between 0 and 100; the rows of the exam are the ones
  created, one for each entry in order.
\<close>

theorem save_competency_breakdown_percentage_range:
  "(\<forall>r\<in>set (save_competency_breakdown e scores db).
       exam r = pk e \<longrightarrow> 0 \<le> percentage r \<and> percentage r \<le> 100)
   \<and> map competency_name (filter (\<lambda>r. exam r = pk e) (save_competency_breakdown e scores db))
       = map fst scores"
proof -
  let ?db0 = "filter (\<lambda>r. exam r \<noteq> pk e) db"
  from create_scores_rows [of e scores ?db0 "[]"] obtain news where
    n: "create_scores e scores ?db0 [] = (?db0 @ news, news)"
      "\<forall>r\<in>set news. exam r = pk e \<and> 0 \<le> percentage r \<and> percentage r \<le> 100"
      "map competency_name news = map fst scores"
    by auto
  let ?res = "save_competency_breakdown e scores db"
  have res: "?res = identify_strengths_weaknesses e news (?db0 @ news)"
    by (simp add: save_competency_breakdown_def n(1))
  have f0: "filter (\<lambda>r. exam r = pk e) (?db0 @ news) = news"
    using n(2) by (simp add: filter_empty_conv)
  have "map (\<lambda>r. (competency_name r, percentage r)) (filter (\<lambda>r. exam r = pk e) ?res)
      = map (\<lambda>r. (competency_name r, percentage r)) (filter (\<lambda>r. exam r = pk e) (?db0 @ news))"
    unfolding res by (rule filter_via_fields) (rule identify_keeps_fields)
  then have m: "map (\<lambda>r. (competency_name r, percentage r)) (filter (\<lambda>r. exam r = pk e) ?res)
      = map (\<lambda>r. (competency_name r, percentage r)) news"
    by (simp only: f0)
  have names: "map competency_name (filter (\<lambda>r. exam r = pk e) ?res) = map fst scores"
    using arg_cong [OF m, of "map fst"] n(3) by (simp add: comp_def)
  have pcts: "map percentage (filter (\<lambda>r. exam r = pk e) ?res) = map percentage news"
    using arg_cong [OF m, of "map snd"] by (simp add: comp_def)
  have "\<forall>p\<in>set (map percentage (filter (\<lambda>r. exam r = pk e) ?res)). 0 \<le> p \<and> p \<le> 100"
    unfolding pcts using n(2) by simp
  then have "\<forall>r\<in>set ?res. exam r = pk e \<longrightarrow> 0 \<le> percentage r \<and> percentage r \<le> 100"
    by simp
  with names show ?thesis by simp
qed

theorem save_competency_breakdown_percentage_range_witness:
  "map (\<lambda>r. (competency_name r, max_score r, percentage r)) (save_competency_breakdown exam_a odd_raw [])
     = [(''technical'', 48, 100), (''leadership'', 0, 0), (''communication'', 10, 0)]
   \<and> list_all (\<lambda>r. 0 \<le> percentage r \<and> percentage r \<le> 100)
       (filter (\<lambda>r. exam r = pk exam_a) (save_competency_breakdown exam_a odd_raw []))"
  using save_competency_breakdown_percentage_range [of exam_a odd_raw "[]"] save_odd_raw
  by (simp add: list_all_iff)

section \<open>Improvement priorities\<close>

lemma sort_desc_stable: "filter (\<lambda>y. f y = k) (sort_desc f xs) = filter (\<lambda>y. f y = k) xs"
proof -
  have "filter (\<lambda>y. f y = k) (sort_desc f xs) = rev (filter (\<lambda>y. f y = k) (sort_key f (rev xs)))"
    by (simp add: sort_desc_def rev_filter)
  also have "\<dots> = rev (filter (\<lambda>y. f y = k) (rev xs))"
    by (simp only: sort_key_stable)
  also have "\<dots> = filter (\<lambda>y. f y = k) xs"
    by (simp add: rev_filter)
  finally show ?thesis .
qed

lemma priority_of_claim: "priority_of c = claim_entry c"
  by (simp add: priority_of_def claim_entry_def claim_priority_score_def Let_def)

lemma round_half_even_near: "\<bar>x - of_int (round_half_even x)\<bar> \<le> 1 / 2"
proof -
  have "of_int \<lfloor>x\<rfloor> \<le> x" "x < of_int \<lfloor>x\<rfloor> + 1"
    by linarith+
  then show ?thesis
    by (auto simp: round_half_even_def Let_def abs_le_iff not_less)
qed

lemma py_round_3_nearest:
  "\<exists>k. py_round x 3 = fl (of_int k / 1000) \<and> \<bar>x * 1000 - of_int k\<bar> \<le> 1 / 2"
  using round_half_even_near [of "x * 1000"]
  by (intro exI [of _ "round_half_even (x * 1000)"]) (simp add: py_round_def)

lemma priorities_near_target:
  "map (\<lambda>p. (p_competency_name p, p_percentage p, priority_score p))
       (compute_improvement_priorities exam_a near_target_stored) =
     [(''communication'', 60, 3),
      (''critical_thinking'', 74875 / 1000, 5332261958806667 / 144115188075855872),
      (''adaptability'', 100, 0), (''basic_engineering'', 80, 0), (''technical'', 75, 0)]"
  by code_simp

lemma unrounded_near_target:
  "fmul (max 0 (fsub 75 (74875 / 1000))) (dict_get COMPETENCY_WEIGHTS ''critical_thinking'' 0)
     = 5404319552844595 / 144115188075855872"
  by code_simp

text \<open>
  Claim C6: the list returned by \<open>compute_improvement_priorities\<close> is sorted by
  descending priority score; for every score, the entries with that score are the
  entries of the claim for the stored rows of the exam with that score, in the order of
  the rows (so each row has its entry, with its own name, percentage and score
  round(max(0, 75 - percentage) \<times> weight, 3), and equal scores keep the input order);
  and that score is the float of a multiple of 0.001 within half a thousandth of the
  product.
\<close>

theorem compute_improvement_priorities_as_claimed:
  "sorted_wrt (\<lambda>a b. priority_score b \<le> priority_score a) (compute_improvement_priorities e db)
   \<and> (\<forall>v. filter (\<lambda>p. priority_score p = v) (compute_improvement_priorities e db)
           = filter (\<lambda>p. priority_score p = v) (map claim_entry (filter (\<lambda>r. exam r = pk e) db)))
   \<and> (\<exists>k. claim_priority_score pct name = fl (of_int k / 1000)
          \<and> \<bar>fmul (max 0 (fsub 75 pct)) (dict_get COMPETENCY_WEIGHTS name 0) * 1000 - of_int k\<bar>
              \<le> 1 / 2)"
proof -
  have eq: "map priority_of xs = map claim_entry xs" for xs
    by (simp add: priority_of_claim)
  show ?thesis
    using py_round_3_nearest [of "fmul (max 0 (fsub 75 pct)) (dict_get COMPETENCY_WEIGHTS name 0)"]
    by (simp add: compute_improvement_priorities_def sorted_wrt_sort_desc sort_desc_stable eq
        claim_priority_score_def)
qed

theorem compute_improvement_priorities_as_claimed_witness:
  "map (\<lambda>p. (p_competency_name p, p_percentage p, priority_score p))
       (compute_improvement_priorities exam_a near_target_stored) =
     [(''communication'', 60, 3),
      (''critical_thinking'', 74875 / 1000, 5332261958806667 / 144115188075855872),
      (''adaptability'', 100, 0), (''basic_engineering'', 80, 0), (''technical'', 75, 0)]
   \<and> sorted_wrt (\<lambda>a b. priority_score b \<le> priority_score a)
         (compute_improvement_priorities exam_a near_target_stored)
   \<and> filter (\<lambda>p. priority_score p = 0) (compute_improvement_priorities exam_a near_target_stored)
       = filter (\<lambda>p. priority_score p = 0)
           (map claim_entry (filter (\<lambda>r. exam r = pk exam_a) near_target_stored))"
  using compute_improvement_priorities_as_claimed [of exam_a near_target_stored] priorities_near_target
  by simp

section \<open>Total score: monotone in the correct answers\<close>

lemma mark_of_nonneg: "0 \<le> mark_of c"
  by (auto simp: mark_of_def dict_get_def MARKS_def split: option.splits if_splits)

lemma sum_update:
  fixes cs :: "(string \<times> int) list"
  shows "map_of cs c = Some cur \<Longrightarrow>
   sum_list (map snd (AList.update c v cs)) = sum_list (map snd cs) - cur + v"
  by (induction cs) auto

lemma keys_update: "map_of cs c = Some cur \<Longrightarrow> map fst (AList.update c v cs) = map fst cs"
  by (induction cs) auto

lemma add_marks_Inr:
  assumes "map fst cs = map fst MARKS" "in_taxonomy c"
  shows "\<exists>cs'. add_marks c cs = Inr cs' \<and> map fst cs' = map fst MARKS
           \<and> sum_list (map snd cs') = sum_list (map snd cs) + mark_of c"
proof -
  from assms(2) obtain n where c: "c = Some n" and n: "n \<in> set (map fst MARKS)"
    by (auto simp: in_taxonomy_def split: option.splits)
  from n obtain m where m: "map_of MARKS n = Some m"
    by (metis map_of_eq_None_iff not_Some_eq set_map)
  from n assms(1) obtain cur where cur: "map_of cs n = Some cur"
    by (metis map_of_eq_None_iff not_Some_eq set_map)
  have "add_marks c cs = Inr (AList.update n (cur + m) cs)"
    by (simp add: add_marks_def c m cur)
  moreover have "mark_of c = m"
    by (simp add: mark_of_def dict_get_def c m)
  ultimately show ?thesis
    using sum_update [OF cur] keys_update [OF cur] assms(1) by simp
qed

lemma add_marks_Inl:
  assumes "map fst cs = map fst MARKS" "\<not> in_taxonomy c"
  shows "add_marks c cs = Inl KeyError"
proof (cases c)
  case None
  then show ?thesis by (simp add: add_marks_def)
next
  case (Some n)
  with assms(2) have "n \<notin> set (map fst cs)"
    by (simp add: in_taxonomy_def assms(1))
  then have "map_of cs n = None"
    by (simp add: map_of_eq_None_iff)
  with Some show ?thesis by (simp add: add_marks_def)
qed

lemma grade_Inr:
  assumes "map fst cs = map fst MARKS"
    "\<forall>q\<in>set qs. is_correct ans q \<longrightarrow> in_taxonomy (competency_type q)"
  shows "\<exists>cs'. grade qs ans cs = Inr cs'
           \<and> sum_list (map snd cs') = sum_list (map snd cs) + correct_marks qs ans"
  using assms
proof (induction qs arbitrary: cs)
  case Nil
  then show ?case by (simp add: correct_marks_def)
next
  case (Cons q qs)
  show ?case
  proof (cases "is_correct ans q")
    case True
    with Cons.prems have "in_taxonomy (competency_type q)" by simp
    from add_marks_Inr [OF Cons.prems(1) this] obtain cs1 where
      cs1: "add_marks (competency_type q) cs = Inr cs1" "map fst cs1 = map fst MARKS"
        "sum_list (map snd cs1) = sum_list (map snd cs) + mark_of (competency_type q)"
      by blast
    from Cons.IH [OF cs1(2)] Cons.prems(2) obtain cs' where
      "grade qs ans cs1 = Inr cs'"
      "sum_list (map snd cs') = sum_list (map snd cs1) + correct_marks qs ans"
      by auto
    with True cs1 show ?thesis by (simp add: correct_marks_def)
  next
    case False
    with Cons.IH [OF Cons.prems(1)] Cons.prems(2) show ?thesis
      by (simp add: correct_marks_def)
  qed
qed

lemma grade_Inl:
  assumes "map fst cs = map fst MARKS"
    "\<exists>q\<in>set qs. is_correct ans q \<and> \<not> in_taxonomy (competency_type q)"
  shows "grade qs ans cs = Inl KeyError"
  using assms
proof (induction qs arbitrary: cs)
  case Nil
  then show ?case by simp
next
  case (Cons q qs)
  show ?case
  proof (cases "is_correct ans q")
    case False
    with Cons show ?thesis by auto
  next
    case True
    show ?thesis
    proof (cases "in_taxonomy (competency_type q)")
      case False
      with True add_marks_Inl [OF Cons.prems(1) False] show ?thesis by simp
    next
      case t: True
      from add_marks_Inr [OF Cons.prems(1) t] obtain cs1 where
        cs1: "add_marks (competency_type q) cs = Inr cs1" "map fst cs1 = map fst MARKS"
        by blast
      from Cons.prems(2) t have "\<exists>x\<in>set qs. is_correct ans x \<and> \<not> in_taxonomy (competency_type x)"
        by auto
      from Cons.IH [OF cs1(2) this] True cs1(1) show ?thesis by simp
    qed
  qed
qed

lemma initial_scores:
  "map fst (map (\<lambda>(c, m). (c, 0::int)) MARKS) = map fst MARKS"
  "sum_list (map snd (map (\<lambda>(c, m). (c, 0::int)) MARKS)) = 0"
  by (simp_all add: MARKS_def)

lemma calculate_total_score_Inr:
  assumes "\<forall>q\<in>set qs. is_correct ans q \<longrightarrow> in_taxonomy (competency_type q)"
  shows "\<exists>db'. calculate_total_score e events db qs ans =
           Inr (max 0 (correct_marks qs ans - calculate_violation_deduction e events), db')"
proof -
  from grade_Inr [OF initial_scores(1) assms] obtain cs' where
    g: "grade qs ans (map (\<lambda>(c, m). (c, 0)) MARKS) = Inr cs'"
    and "sum_list (map snd cs') =
           sum_list (map snd (map (\<lambda>(c, m). (c, 0::int)) MARKS)) + correct_marks qs ans"
    by blast
  then have "sum_list (map snd cs') = correct_marks qs ans"
    by (simp only: initial_scores(2) add_0)
  with g show ?thesis
    by (simp add: calculate_total_score_def Let_def)
qed

lemma calculate_total_score_InrD:
  assumes "calculate_total_score e events db qs ans = Inr (t, db1)"
  shows "(\<forall>q\<in>set qs. is_correct ans q \<longrightarrow> in_taxonomy (competency_type q))
       \<and> t = max 0 (correct_marks qs ans - calculate_violation_deduction e events)"
proof -
  have good: "\<forall>q\<in>set qs. is_correct ans q \<longrightarrow> in_taxonomy (competency_type q)"
  proof (rule ccontr)
    assume "\<not> ?thesis"
    then have "\<exists>q\<in>set qs. is_correct ans q \<and> \<not> in_taxonomy (competency_type q)" by blast
    from grade_Inl [OF initial_scores(1) this] assms show False
      by (simp add: calculate_total_score_def)
  qed
  with calculate_total_score_Inr [OF good, of e events db] assms show ?thesis by auto
qed

lemma sum_filter_mono:
  fixes f :: "'a \<Rightarrow> int"
  assumes "\<forall>x\<in>set xs. P x \<longrightarrow> Q x" "\<forall>x. 0 \<le> f x"
  shows "sum_list (map f (filter P xs)) \<le> sum_list (map f (filter Q xs))"
  using assms
proof (induction xs)
  case Nil
  then show ?case by simp
next
  case (Cons x xs)
  then have "sum_list (map f (filter P xs)) \<le> sum_list (map f (filter Q xs))" by simp
  moreover have "0 \<le> f x" using Cons.prems(2) by simp
  ultimately show ?case using Cons.prems(1) by auto
qed

lemma py_str_12: "py_str (PyInt 12) = ''12''"
  by code_simp

lemma total_before:
  "calculate_total_score exam_a (two_events 4) [] two_questions [''12'' \<mapsto> PyStr ''C''] =
     Inr (0, save_competency_breakdown exam_a
               [(''critical_thinking'', 0), (''communication'', 0), (''adaptability'', 1),
                (''basic_engineering'', 0), (''technical'', 0)] [])"
  by (simp add: calculate_total_score_def is_correct_def answer_get_def add_marks_def MARKS_def
      two_questions_def technical_question_def adaptability_question_def Let_def
      py_str_1 py_str_12 deduction_two_events_4 del: py_str.simps)

lemma total_after:
  "calculate_total_score exam_a (two_events 4) [] two_questions
       [''12'' \<mapsto> PyStr ''C'', ''1'' \<mapsto> PyStr ''A''] =
     Inr (5, save_competency_breakdown exam_a
               [(''critical_thinking'', 0), (''communication'', 0), (''adaptability'', 1),
                (''basic_engineering'', 0), (''technical'', 6)] [])"
  by (simp add: calculate_total_score_def is_correct_def answer_get_def add_marks_def MARKS_def
      two_questions_def technical_question_def adaptability_question_def Let_def
      py_str_1 py_str_12 deduction_two_events_4 del: py_str.simps)

text \<open>
  Claim C8: let the question ids be distinct as text, and let a call return the total
  \<open>t\<close>. When the submitted answer of one question is replaced by its correct answer,
  every total the new call returns is at least \<open>t\<close>; and the new call does return
  when the competency of that question is one of the five of \<open>MARKS\<close>.
\<close>

theorem calculate_total_score_monotone:
  assumes "q \<in> set questions" "distinct (map (\<lambda>x. py_str (qid x)) questions)"
    "calculate_total_score e events db questions user_answers = Inr (t, db1)"
  shows "(in_taxonomy (competency_type q) \<longrightarrow>
            (\<exists>t' db2. calculate_total_score e events db questions
                         (user_answers(py_str (qid q) \<mapsto> correct_answer q)) = Inr (t', db2)))
       \<and> (\<forall>t' db2. calculate_total_score e events db questions
                      (user_answers(py_str (qid q) \<mapsto> correct_answer q)) = Inr (t', db2)
              \<longrightarrow> t \<le> t')"
proof -
  let ?ans' = "user_answers(py_str (qid q) \<mapsto> correct_answer q)"
  from calculate_total_score_InrD [OF assms(3)] have
    good: "\<forall>x\<in>set questions. is_correct user_answers x \<longrightarrow> in_taxonomy (competency_type x)"
    and t: "t = max 0 (correct_marks questions user_answers - calculate_violation_deduction e events)"
    by simp_all
  from assms(2) have inj: "inj_on (\<lambda>x. py_str (qid x)) (set questions)"
    by (simp add: distinct_map)
  have same: "is_correct ?ans' x = is_correct user_answers x" if "x \<in> set questions" "x \<noteq> q" for x
  proof -
    from that assms(1) inj have "py_str (qid x) \<noteq> py_str (qid q)"
      by (auto dest: inj_onD)
    then show ?thesis by (simp add: is_correct_def answer_get_def)
  qed
  have q: "is_correct ?ans' q"
    by (simp add: is_correct_def answer_get_def)
  have grows: "\<forall>x\<in>set questions. is_correct user_answers x \<longrightarrow> is_correct ?ans' x"
    using same q by metis
  have le: "correct_marks questions user_answers \<le> correct_marks questions ?ans'"
    unfolding correct_marks_def by (rule sum_filter_mono) (use grows mark_of_nonneg in auto)
  have returns: "\<exists>t' db2. calculate_total_score e events db questions ?ans' = Inr (t', db2)"
    if "in_taxonomy (competency_type q)"
  proof -
    have "\<forall>x\<in>set questions. is_correct ?ans' x \<longrightarrow> in_taxonomy (competency_type x)"
      using same good that by metis
    from calculate_total_score_Inr [OF this, of e events db] show ?thesis by blast
  qed
  have "t \<le> t'" if "calculate_total_score e events db questions ?ans' = Inr (t', db2)" for t' db2
    using calculate_total_score_InrD [OF that] t le by simp
  with returns show ?thesis by blast
qed

theorem calculate_total_score_monotone_witness:
  "technical_question \<in> set two_questions
   \<and> distinct (map (\<lambda>x. py_str (qid x)) two_questions)
   \<and> in_taxonomy (competency_type technical_question)
   \<and> calculate_total_score exam_a (two_events 4) [] two_questions [''12'' \<mapsto> PyStr ''C''] =
       Inr (0, save_competency_breakdown exam_a
                 [(''critical_thinking'', 0), (''communication'', 0), (''adaptability'', 1),
                  (''basic_engineering'', 0), (''technical'', 0)] [])
   \<and> calculate_total_score exam_a (two_events 4) [] two_questions
         [''12'' \<mapsto> PyStr ''C'', ''1'' \<mapsto> PyStr ''A''] =
       Inr (5, save_competency_breakdown exam_a
                 [(''critical_thinking'', 0), (''communication'', 0), (''adaptability'', 1),
                  (''basic_engineering'', 0), (''technical'', 6)] [])
   \<and> (0::int) \<le> 5"
  using calculate_total_score_monotone [of technical_question two_questions exam_a "two_events 4" "[]"
      "[''12'' \<mapsto> PyStr ''C'']" 0] total_before total_after
  by (simp add: two_questions_def technical_question_def adaptability_question_def in_taxonomy_def
      MARKS_def py_str_1 py_str_12 del: py_str.simps)

end
